theory Spec2Isabelle
  imports Complex_Main
begin

section \<open>PowerUp! Streamlit front end: the numeric helpers of app.py\<close>

text \<open>
  The helpers \<^verbatim>\<open>calculate_multiplier\<close>, \<^verbatim>\<open>get_df_for_design\<close> and
  \<^verbatim>\<open>estimate_design_effect\<close> of \<^verbatim>\<open>src/app.py\<close> are embedded as HOL functions.
  Python integers are \<^typ>\<open>int\<close>. A finite Python float is idealised as a
  \<^typ>\<open>real\<close>: arithmetic is exact, with no rounding and no NaN, but the finite
  range of the floats is kept, so that an operation whose result leaves the range
  raises as it does in Python. The one infinite value the code produces is a
  constructor of its own, and the exceptions the code can raise are the values
  of an error type.
\<close>

subsection \<open>Dictionaries\<close>

text \<open>
  A parameter dictionary maps a parameter name to a value. \<^verbatim>\<open>params.get(k, d)\<close>
  is \<open>dict_get params k d\<close>. The resolver reads only the integer counts
  (\<^verbatim>\<open>is_int\<close> entries of \<^verbatim>\<open>PARAMS\<close>), so the dictionary is typed
  \<open>string \<rightharpoonup> int\<close>.
\<close>

definition dict_get :: "('k \<rightharpoonup> 'v) \<Rightarrow> 'k \<Rightarrow> 'v \<Rightarrow> 'v" where
  "dict_get m k d = (case m k of None \<Rightarrow> d | Some v \<Rightarrow> v)"

subsection \<open>Degrees of freedom: \<^verbatim>\<open>get_df_for_design\<close>\<close>

text \<open>
  The literal dictionary \<^verbatim>\<open>df_formulas\<close> of the source, in its order, as an
  association list from design id to the value of the design's formula.
\<close>

definition df_formulas :: "int \<Rightarrow> int \<Rightarrow> int \<Rightarrow> int \<Rightarrow> int \<Rightarrow> int \<Rightarrow> (string \<times> int) list" where
  "df_formulas n J K L g T =
    [(''ira'', n - g - 2),
     (''bira2_1c'', J * (n - 1) - g - 1),
     (''bira2_1f'', J * (n - 2) - g),
     (''bira2_1r'', J - g - 1),
     (''bira3_1r'', K - g - 1),
     (''bira4_1r'', L - g - 1),
     (''cra2_2r'', J - g - 2),
     (''cra3_3r'', K - g - 2),
     (''cra4_4r'', L - g - 2),
     (''bcra3_2f'', K * (J - 2) - g),
     (''bcra3_2r'', K - g - 1),
     (''bcra4_2r'', L - g - 1),
     (''bcra4_3f'', L * (K - 2) - g),
     (''bcra4_3r'', L - g - 1),
     (''rd2_1f'', J * (n - 2) - g),
     (''rd2_1r'', J - g - 1),
     (''rdc_2r'', J - g - 2),
     (''rdc_3r'', K - g - 2),
     (''rd3_2f'', K * (J - 1) - g),
     (''its'', K * T - g - 1)]"

definition get_df_for_design :: "string \<Rightarrow> (string \<rightharpoonup> int) \<Rightarrow> int" where
  "get_df_for_design design_id params =
    (let n = dict_get params ''n'' 30;
         J = dict_get params ''J'' 10;
         K = dict_get params ''K'' 10;
         L = dict_get params ''L'' 10;
         g = dict_get params ''g'' 0;
         T = dict_get params ''T'' 5
     in max 1 (dict_get (map_of (df_formulas n J K L g T)) design_id 10))"

text \<open>The keys of the table: the twenty design ids the resolver knows.\<close>

definition df_design_ids :: "string list" where
  "df_design_ids =
    [''ira'', ''bira2_1c'', ''bira2_1f'', ''bira2_1r'', ''bira3_1r'', ''bira4_1r'',
     ''cra2_2r'', ''cra3_3r'', ''cra4_4r'',
     ''bcra3_2f'', ''bcra3_2r'', ''bcra4_2r'', ''bcra4_3f'', ''bcra4_3r'',
     ''rd2_1f'', ''rd2_1r'', ''rdc_2r'', ''rdc_3r'', ''rd3_2f'', ''its'']"

text \<open>The fallback values of the six \<^verbatim>\<open>params.get\<close> calls, as a dictionary.\<close>

definition df_fallbacks :: "string \<rightharpoonup> int" where
  "df_fallbacks =
    [''n'' \<mapsto> 30, ''J'' \<mapsto> 10, ''K'' \<mapsto> 10, ''L'' \<mapsto> 10, ''g'' \<mapsto> 0, ''T'' \<mapsto> 5]"

subsection \<open>The multiplier: \<^verbatim>\<open>calculate_multiplier\<close>\<close>

text \<open>
  \<^verbatim>\<open>stats.t.ppf\<close> is SciPy's Student-t quantile function, a library function
  outside the repository; it is the parameter \<open>ppf\<close>, applied to the
  probability and to the degrees of freedom. The tail count is the integer 1 or
  2 the form collects; the result is the triple \<open>(m, t1, t2)\<close>. The
  argument \<^verbatim>\<open>power\<close> is written \<open>power'\<close>.
\<close>

definition calculate_multiplier ::
  "(real \<Rightarrow> int \<Rightarrow> real) \<Rightarrow> real \<Rightarrow> real \<Rightarrow> int \<Rightarrow> int \<Rightarrow> real \<times> real \<times> real" where
  "calculate_multiplier ppf alpha power' df two_tailed =
    (let alpha' = (if two_tailed = 2 then alpha / 2 else alpha);
         t1 = ppf (1 - alpha') df;
         t2 = \<bar>ppf (1 - power') df\<bar>;
         m = (if power' \<ge> 0.5 then t1 + t2 else t1 - t2)
     in (m, t1, t2))"

subsection \<open>The design effect: \<^verbatim>\<open>estimate_design_effect\<close>\<close>

text \<open>
  The argument is a finite float (the form's \<^verbatim>\<open>number_input\<close> with float
  bounds). The function returns \<^verbatim>\<open>float('inf')\<close> on one branch and a
  quotient on the other. Two operations of the quotient can raise:
  \<^item> \<^verbatim>\<open>rho_ts ** 2\<close> raises \<^verbatim>\<open>OverflowError\<close> when the square is beyond the
    largest finite float, \<open>float_max\<close> (about 1.8e308). The largest float whose
    square does not overflow is \<open>2 ^ 512 - 2 ^ 459\<close>, and no float has a square
    between the largest finite float and the rounding boundary above it, so
    on floats the comparison of the exact square with the largest finite float
    is the overflow test of the machine;
  \<^item> \<^verbatim>\<open>/\<close> raises \<^verbatim>\<open>ZeroDivisionError\<close> on a zero divisor.
  The subtraction \<^verbatim>\<open>1 - rho_ts ** 2\<close> cannot leave the range.
\<close>

datatype py_error = ZeroDivisionError | OverflowError

datatype py_float = Fin real | PosInf

definition float_max :: real where
  "float_max = (2 - 1 / 2 ^ 52) * 2 ^ 1023"

definition py_pow2 :: "real \<Rightarrow> py_error + real" where
  "py_pow2 x = (if x ^ 2 > float_max then Inl OverflowError else Inr (x ^ 2))"

definition py_truediv :: "real \<Rightarrow> real \<Rightarrow> py_error + py_float" where
  "py_truediv a b = (if b = 0 then Inl ZeroDivisionError else Inr (Fin (a / b)))"

definition estimate_design_effect :: "real \<Rightarrow> py_error + py_float" where
  "estimate_design_effect rho_ts =
    (if rho_ts \<ge> 1 then Inr PosInf
     else case py_pow2 rho_ts of
            Inl e \<Rightarrow> Inl e
          | Inr sq \<Rightarrow> py_truediv 1 (1 - sq))"

text \<open>A returned value is positive: \<^verbatim>\<open>inf\<close> is, a finite float if it is above 0.\<close>

fun py_positive :: "py_float \<Rightarrow> bool" where
  "py_positive PosInf = True"
| "py_positive (Fin x) = (0 < x)"

fun py_negative :: "py_float \<Rightarrow> bool" where
  "py_negative PosInf = False"
| "py_negative (Fin x) = (x < 0)"

subsection \<open>The formula engine behind \<^verbatim>\<open>effect_size\<close>, \<^verbatim>\<open>power\<close> and \<^verbatim>\<open>sample_size\<close>\<close>

text \<open>
  The three entry points belong to the \<^verbatim>\<open>pypowerup\<close> package, of which the
  repository holds the parity tests and the callers only. They are modelled from
  sections 4.3, 4.4, 5 and 7 of the specification, over the multiplier of
  \<^verbatim>\<open>app.py\<close> above.
\<close>

text \<open>Modelled from the spec: the error kinds of section 7 (the package's exceptions are missing).\<close>

datatype calc_error = MissingParameter | InvalidRange | NonConvergence | NonFinite

text \<open>
  Modelled from the spec: \<^verbatim>\<open>effect_size\<close> of the missing package, in the generic
  shape of section 4.3, \<open>\<delta> = M(\<alpha>, power, df, tails) \<times> \<surd>v\<close>. A design is given by
  \<open>df_of\<close>, its degrees of freedom as a function of the value \<open>s\<close> of its
  sample-size parameter, and by \<open>var_of\<close>, the term under the root
  (design factor times unexplained variance over \<open>P(1 - P)\<close> times the effective
  sample size) as a function of \<open>s\<close>, which may fail. A negative term under
  the root is the InvalidRange failure.
\<close>

definition effect_size ::
  "(real \<Rightarrow> int \<Rightarrow> real) \<Rightarrow> (nat \<Rightarrow> int) \<Rightarrow> (nat \<Rightarrow> calc_error + real) \<Rightarrow> real \<Rightarrow> real \<Rightarrow> int
     \<Rightarrow> nat \<Rightarrow> calc_error + real" where
  "effect_size ppf df_of var_of alpha power' tails s =
    (case var_of s of
       Inl e \<Rightarrow> Inl e
     | Inr v \<Rightarrow>
         if v < 0 then Inl InvalidRange
         else Inr (fst (calculate_multiplier ppf alpha power' (df_of s) tails) * sqrt v))"

text \<open>
  Modelled from the spec: the individual random assignment design, whose formula
  the parity tests document as \<open>\<delta> = M \<times> \<surd>(1 / (P(1 - P)n) \<times> (1 - R\<^sup>2))\<close> with
  \<open>n - g - 2\<close> degrees of freedom. The degrees of freedom are those of the
  resolver of \<^verbatim>\<open>app.py\<close>. A zero divisor (\<open>P\<close> at 0 or 1, or no unit) is
  the InvalidRange failure.
\<close>

definition ira_df :: "int \<Rightarrow> nat \<Rightarrow> int" where
  "ira_df g n = get_df_for_design ''ira'' [''n'' \<mapsto> int n, ''g'' \<mapsto> g]"

definition ira_var :: "real \<Rightarrow> real \<Rightarrow> nat \<Rightarrow> calc_error + real" where
  "ira_var p r21 n =
    (if p * (1 - p) * real n = 0 then Inl InvalidRange
     else Inr (1 / (p * (1 - p) * real n) * (1 - r21)))"

text \<open>
  Modelled from the spec: \<^verbatim>\<open>sample_size\<close> of the missing package. Section 4.4
  asks for the smallest integer value of the design's sample-size parameter that
  meets the target effect size, and section 5 for an iteration cap whose
  exhaustion is the NonConvergence failure: the search walks up from the
  design's minimum \<open>lo\<close> for at most \<open>cap\<close> steps and stops at the first value
  whose MDES is at most \<open>es\<close>.
\<close>

fun find_min_size :: "(nat \<Rightarrow> calc_error + real) \<Rightarrow> real \<Rightarrow> nat \<Rightarrow> nat \<Rightarrow> calc_error + nat" where
  "find_min_size f es s 0 = Inl NonConvergence"
| "find_min_size f es s (Suc cap) =
    (case f s of
       Inl e \<Rightarrow> Inl e
     | Inr d \<Rightarrow> if d \<le> es then Inr s else find_min_size f es (Suc s) cap)"

definition sample_size ::
  "(real \<Rightarrow> int \<Rightarrow> real) \<Rightarrow> (nat \<Rightarrow> int) \<Rightarrow> (nat \<Rightarrow> calc_error + real) \<Rightarrow> real \<Rightarrow> real \<Rightarrow> int
     \<Rightarrow> real \<Rightarrow> nat \<Rightarrow> nat \<Rightarrow> calc_error + nat" where
  "sample_size ppf df_of var_of alpha power' tails es lo cap =
    find_min_size (effect_size ppf df_of var_of alpha power' tails) es lo cap"

text \<open>
  Modelled from the spec: \<^verbatim>\<open>power\<close> of the missing package. Section 4.4 asks
  for a one-dimensional root-find of \<open>mdes(\<pi>) - es = 0\<close> over \<open>\<pi>\<close> in the open
  interval \<open>(alpha, 1)\<close> and names bisection; section 5 asks for an iteration
  cap. The MDES grows with the power, so the bracket moves up when the MDES at
  the midpoint is below the target and down otherwise; the midpoint is returned
  once its MDES is within \<open>tol\<close> of the target. The ends of the bracket are
  never evaluated.
\<close>

fun solve_power ::
  "(real \<Rightarrow> calc_error + real) \<Rightarrow> real \<Rightarrow> real \<Rightarrow> real \<Rightarrow> real \<Rightarrow> nat \<Rightarrow> calc_error + real" where
  "solve_power f es tol lo hi 0 = Inl NonConvergence"
| "solve_power f es tol lo hi (Suc cap) =
    (let mid = (lo + hi) / 2 in
     case f mid of
       Inl e \<Rightarrow> Inl e
     | Inr d \<Rightarrow>
         if \<bar>d - es\<bar> \<le> tol then Inr mid
         else if d < es then solve_power f es tol mid hi cap
         else solve_power f es tol lo mid cap)"

definition power_py ::
  "(real \<Rightarrow> int \<Rightarrow> real) \<Rightarrow> (nat \<Rightarrow> int) \<Rightarrow> (nat \<Rightarrow> calc_error + real) \<Rightarrow> real \<Rightarrow> int \<Rightarrow> nat
     \<Rightarrow> real \<Rightarrow> real \<Rightarrow> nat \<Rightarrow> calc_error + real" where
  "power_py ppf df_of var_of alpha tails s es tol cap =
    solve_power (\<lambda>\<pi>. effect_size ppf df_of var_of alpha \<pi> tails s) es tol alpha 1 cap"

text \<open>
  A stand-in for the quantile function in the concrete instances below: strictly
  increasing on \<open>(0, 1)\<close> and symmetric about 1/2, as the Student-t quantile is,
  and the same for every number of degrees of freedom.
\<close>

definition linear_ppf :: "real \<Rightarrow> int \<Rightarrow> real" where
  "linear_ppf q d = 2 * q - 1"

section \<open>Properties of the degrees-of-freedom resolver\<close>

lemma df_formulas_keys: "map fst (df_formulas n J K L g T) = df_design_ids"
  by (simp add: df_formulas_def df_design_ids_def)

lemma get_df_unfold:
  "get_df_for_design d p =
     max 1 (dict_get (map_of (df_formulas (dict_get p ''n'' 30) (dict_get p ''J'' 10)
       (dict_get p ''K'' 10) (dict_get p ''L'' 10) (dict_get p ''g'' 0) (dict_get p ''T'' 5))) d 10)"
  by (simp add: get_df_for_design_def Let_def)

lemma dict_get_fallbacks:
  "dict_get (df_fallbacks ++ p) ''n'' 30 = dict_get p ''n'' 30"
  "dict_get (df_fallbacks ++ p) ''J'' 10 = dict_get p ''J'' 10"
  "dict_get (df_fallbacks ++ p) ''K'' 10 = dict_get p ''K'' 10"
  "dict_get (df_fallbacks ++ p) ''L'' 10 = dict_get p ''L'' 10"
  "dict_get (df_fallbacks ++ p) ''g'' 0 = dict_get p ''g'' 0"
  "dict_get (df_fallbacks ++ p) ''T'' 5 = dict_get p ''T'' 5"
  by (simp_all add: dict_get_def df_fallbacks_def map_add_def split: option.splits)

lemma get_df_unknown:
  assumes "d \<notin> set df_design_ids"
  shows "get_df_for_design d p = 10"
proof -
  have "map_of (df_formulas n J K L g T) d = None" for n J K L g T
  proof -
    have "fst ` set (df_formulas n J K L g T) = set (map fst (df_formulas n J K L g T))"
      by (simp only: set_map)
    with assms show ?thesis
      by (simp only: map_of_eq_None_iff df_formulas_keys not_False_eq_True)
  qed
  then show ?thesis
    by (simp add: get_df_unfold dict_get_def)
qed

text \<open>
  Claim C2. For each of the twenty listed design ids, and whatever the parameter
  dictionary supplies for the counts n, J, K, L, T and the covariate count g (a
  missing one read at its fallback), the resolver returns the design's linear
  formula floored at 1: ira n-g-2, bira2_1c J(n-1)-g-1, bira2_1f J(n-2)-g,
  bira2_1r J-g-1, bira3_1r K-g-1, bira4_1r L-g-1, cra2_2r J-g-2, cra3_3r K-g-2,
  cra4_4r L-g-2, bcra3_2f K(J-2)-g, bcra3_2r K-g-1, bcra4_2r L-g-1,
  bcra4_3f L(K-2)-g, bcra4_3r L-g-1, rd2_1f J(n-2)-g, rd2_1r J-g-1, rdc_2r J-g-2,
  rdc_3r K-g-2, rd3_2f K(J-1)-g, its KT-g-1. For \<open>''ira''\<close> with n = 400 and
  g = 0 the result is 398.
\<close>

theorem get_df_table:
  "get_df_for_design ''ira'' p = max 1 (dict_get p ''n'' 30 - dict_get p ''g'' 0 - 2)
 \<and> get_df_for_design ''bira2_1c'' p = max 1 (dict_get p ''J'' 10 * (dict_get p ''n'' 30 - 1) - dict_get p ''g'' 0 - 1)
 \<and> get_df_for_design ''bira2_1f'' p = max 1 (dict_get p ''J'' 10 * (dict_get p ''n'' 30 - 2) - dict_get p ''g'' 0)
 \<and> get_df_for_design ''bira2_1r'' p = max 1 (dict_get p ''J'' 10 - dict_get p ''g'' 0 - 1)
 \<and> get_df_for_design ''bira3_1r'' p = max 1 (dict_get p ''K'' 10 - dict_get p ''g'' 0 - 1)
 \<and> get_df_for_design ''bira4_1r'' p = max 1 (dict_get p ''L'' 10 - dict_get p ''g'' 0 - 1)
 \<and> get_df_for_design ''cra2_2r'' p = max 1 (dict_get p ''J'' 10 - dict_get p ''g'' 0 - 2)
 \<and> get_df_for_design ''cra3_3r'' p = max 1 (dict_get p ''K'' 10 - dict_get p ''g'' 0 - 2)
 \<and> get_df_for_design ''cra4_4r'' p = max 1 (dict_get p ''L'' 10 - dict_get p ''g'' 0 - 2)
 \<and> get_df_for_design ''bcra3_2f'' p = max 1 (dict_get p ''K'' 10 * (dict_get p ''J'' 10 - 2) - dict_get p ''g'' 0)
 \<and> get_df_for_design ''bcra3_2r'' p = max 1 (dict_get p ''K'' 10 - dict_get p ''g'' 0 - 1)
 \<and> get_df_for_design ''bcra4_2r'' p = max 1 (dict_get p ''L'' 10 - dict_get p ''g'' 0 - 1)
 \<and> get_df_for_design ''bcra4_3f'' p = max 1 (dict_get p ''L'' 10 * (dict_get p ''K'' 10 - 2) - dict_get p ''g'' 0)
 \<and> get_df_for_design ''bcra4_3r'' p = max 1 (dict_get p ''L'' 10 - dict_get p ''g'' 0 - 1)
 \<and> get_df_for_design ''rd2_1f'' p = max 1 (dict_get p ''J'' 10 * (dict_get p ''n'' 30 - 2) - dict_get p ''g'' 0)
 \<and> get_df_for_design ''rd2_1r'' p = max 1 (dict_get p ''J'' 10 - dict_get p ''g'' 0 - 1)
 \<and> get_df_for_design ''rdc_2r'' p = max 1 (dict_get p ''J'' 10 - dict_get p ''g'' 0 - 2)
 \<and> get_df_for_design ''rdc_3r'' p = max 1 (dict_get p ''K'' 10 - dict_get p ''g'' 0 - 2)
 \<and> get_df_for_design ''rd3_2f'' p = max 1 (dict_get p ''K'' 10 * (dict_get p ''J'' 10 - 1) - dict_get p ''g'' 0)
 \<and> get_df_for_design ''its'' p = max 1 (dict_get p ''K'' 10 * dict_get p ''T'' 5 - dict_get p ''g'' 0 - 1)
 \<and> get_df_for_design ''ira'' [''n'' \<mapsto> 400, ''g'' \<mapsto> 0] = 398"
  by (simp add: get_df_unfold df_formulas_def dict_get_def)

lemma dict_get_upd_missing:
  "p k = None \<Longrightarrow> dict_get (p(k \<mapsto> v)) k v = dict_get p k v"
  "k' \<noteq> k \<Longrightarrow> dict_get (p(k \<mapsto> v)) k' d = dict_get p k' d"
  by (simp_all add: dict_get_def)

lemma get_df_missing:
  "p ''n'' = None \<Longrightarrow> get_df_for_design d p = get_df_for_design d (p(''n'' \<mapsto> 30))"
  "p ''J'' = None \<Longrightarrow> get_df_for_design d p = get_df_for_design d (p(''J'' \<mapsto> 10))"
  "p ''K'' = None \<Longrightarrow> get_df_for_design d p = get_df_for_design d (p(''K'' \<mapsto> 10))"
  "p ''L'' = None \<Longrightarrow> get_df_for_design d p = get_df_for_design d (p(''L'' \<mapsto> 10))"
  "p ''T'' = None \<Longrightarrow> get_df_for_design d p = get_df_for_design d (p(''T'' \<mapsto> 5))"
  "p ''g'' = None \<Longrightarrow> get_df_for_design d p = get_df_for_design d (p(''g'' \<mapsto> 0))"
  by (simp_all add: get_df_unfold dict_get_upd_missing)

lemma get_df_empty:
  "get_df_for_design ''ira'' Map.empty = 28"
  "get_df_for_design ''bira2_1c'' Map.empty = 289"
  "get_df_for_design ''bira2_1f'' Map.empty = 280"
  "get_df_for_design ''bira2_1r'' Map.empty = 9"
  "get_df_for_design ''bira3_1r'' Map.empty = 9"
  "get_df_for_design ''bira4_1r'' Map.empty = 9"
  "get_df_for_design ''cra2_2r'' Map.empty = 8"
  "get_df_for_design ''cra3_3r'' Map.empty = 8"
  "get_df_for_design ''cra4_4r'' Map.empty = 8"
  "get_df_for_design ''bcra3_2f'' Map.empty = 80"
  "get_df_for_design ''bcra3_2r'' Map.empty = 9"
  "get_df_for_design ''bcra4_2r'' Map.empty = 9"
  "get_df_for_design ''bcra4_3f'' Map.empty = 80"
  "get_df_for_design ''bcra4_3r'' Map.empty = 9"
  "get_df_for_design ''rd2_1f'' Map.empty = 280"
  "get_df_for_design ''rd2_1r'' Map.empty = 9"
  "get_df_for_design ''rdc_2r'' Map.empty = 8"
  "get_df_for_design ''rdc_3r'' Map.empty = 8"
  "get_df_for_design ''rd3_2f'' Map.empty = 90"
  "get_df_for_design ''its'' Map.empty = 49"
  by (simp_all add: get_df_unfold df_formulas_def dict_get_def)

text \<open>
  Claim C3. The resolver is a total function of the design id and the parameter
  dictionary, and its result is the table entry of the design id, computed with
  each count read from the dictionary or, when it is missing, taken at its
  fallback (n = 30, J = 10, K = 10, L = 10, T = 5, g = 0), clamped below at 1
  (10 for an id outside the table). So the result is an integer that is at
  least 1; a dictionary gives the result of the same dictionary completed with
  the fallback values, as a whole and key by key; the empty dictionary gives
  for each of the twenty designs the value of its formula at the fallbacks;
  partial dictionaries combine supplied and fallback counts (bira2_1c with
  n = 5 alone: 10 * 4 - 0 - 1 = 39; its with K = 4 and g = 2: 4 * 5 - 2 - 1 = 17);
  and a formula that evaluates to zero (cra2_2r with J = 2) or to a negative
  number (ira with n = 1, g = 3) is clamped to 1.
\<close>

theorem get_df_total_floor:
  "get_df_for_design d p =
     max 1 (dict_get (map_of (df_formulas (dict_get p ''n'' 30) (dict_get p ''J'' 10)
       (dict_get p ''K'' 10) (dict_get p ''L'' 10) (dict_get p ''g'' 0) (dict_get p ''T'' 5))) d 10)
 \<and> 1 \<le> get_df_for_design d p
 \<and> get_df_for_design d p = get_df_for_design d (df_fallbacks ++ p)
 \<and> (p ''n'' = None \<longrightarrow> get_df_for_design d p = get_df_for_design d (p(''n'' \<mapsto> 30)))
 \<and> (p ''J'' = None \<longrightarrow> get_df_for_design d p = get_df_for_design d (p(''J'' \<mapsto> 10)))
 \<and> (p ''K'' = None \<longrightarrow> get_df_for_design d p = get_df_for_design d (p(''K'' \<mapsto> 10)))
 \<and> (p ''L'' = None \<longrightarrow> get_df_for_design d p = get_df_for_design d (p(''L'' \<mapsto> 10)))
 \<and> (p ''T'' = None \<longrightarrow> get_df_for_design d p = get_df_for_design d (p(''T'' \<mapsto> 5)))
 \<and> (p ''g'' = None \<longrightarrow> get_df_for_design d p = get_df_for_design d (p(''g'' \<mapsto> 0)))
 \<and> get_df_for_design ''ira'' Map.empty = 28
 \<and> get_df_for_design ''bira2_1c'' Map.empty = 289
 \<and> get_df_for_design ''bira2_1f'' Map.empty = 280
 \<and> get_df_for_design ''bira2_1r'' Map.empty = 9
 \<and> get_df_for_design ''bira3_1r'' Map.empty = 9
 \<and> get_df_for_design ''bira4_1r'' Map.empty = 9
 \<and> get_df_for_design ''cra2_2r'' Map.empty = 8
 \<and> get_df_for_design ''cra3_3r'' Map.empty = 8
 \<and> get_df_for_design ''cra4_4r'' Map.empty = 8
 \<and> get_df_for_design ''bcra3_2f'' Map.empty = 80
 \<and> get_df_for_design ''bcra3_2r'' Map.empty = 9
 \<and> get_df_for_design ''bcra4_2r'' Map.empty = 9
 \<and> get_df_for_design ''bcra4_3f'' Map.empty = 80
 \<and> get_df_for_design ''bcra4_3r'' Map.empty = 9
 \<and> get_df_for_design ''rd2_1f'' Map.empty = 280
 \<and> get_df_for_design ''rd2_1r'' Map.empty = 9
 \<and> get_df_for_design ''rdc_2r'' Map.empty = 8
 \<and> get_df_for_design ''rdc_3r'' Map.empty = 8
 \<and> get_df_for_design ''rd3_2f'' Map.empty = 90
 \<and> get_df_for_design ''its'' Map.empty = 49
 \<and> get_df_for_design ''bira2_1c'' [''n'' \<mapsto> 5] = 39
 \<and> get_df_for_design ''its'' [''K'' \<mapsto> 4, ''g'' \<mapsto> 2] = 17
 \<and> get_df_for_design ''cra2_2r'' [''J'' \<mapsto> 2] = 1
 \<and> get_df_for_design ''ira'' [''n'' \<mapsto> 1, ''g'' \<mapsto> 3] = 1"
proof -
  have a: "1 \<le> get_df_for_design d p" by (simp add: get_df_unfold)
  have b: "get_df_for_design d p = get_df_for_design d (df_fallbacks ++ p)"
    by (simp only: get_df_unfold dict_get_fallbacks)
  have c: "get_df_for_design ''bira2_1c'' [''n'' \<mapsto> 5] = 39"
    "get_df_for_design ''its'' [''K'' \<mapsto> 4, ''g'' \<mapsto> 2] = 17"
    "get_df_for_design ''cra2_2r'' [''J'' \<mapsto> 2] = 1"
    "get_df_for_design ''ira'' [''n'' \<mapsto> 1, ''g'' \<mapsto> 3] = 1"
    by (simp_all add: get_df_unfold df_formulas_def dict_get_def)
  show ?thesis
    by (intro conjI impI get_df_unfold a b c get_df_empty get_df_missing) 
qed

text \<open>
  The key-by-key fallback of C3 on a dictionary that holds J alone: n is
  missing and is read as 30, so bira2_1c gives 2 * 29 - 0 - 1 = 57.
\<close>

theorem get_df_total_floor_witness:
  "[''J'' \<mapsto> (2::int)] ''n'' = None
 \<and> get_df_for_design ''bira2_1c'' [''J'' \<mapsto> 2] = get_df_for_design ''bira2_1c'' [''J'' \<mapsto> 2, ''n'' \<mapsto> 30]
 \<and> get_df_for_design ''bira2_1c'' [''J'' \<mapsto> 2] = 57"
proof -
  have h: "[''J'' \<mapsto> (2::int)] ''n'' = None" by simp
  have v: "get_df_for_design ''bira2_1c'' [''J'' \<mapsto> 2, ''n'' \<mapsto> 30] = 57"
    by (simp add: get_df_unfold df_formulas_def dict_get_def)
  from get_df_total_floor [of "''bira2_1c''" "[''J'' \<mapsto> 2]"] h
  have "get_df_for_design ''bira2_1c'' [''J'' \<mapsto> 2]
      = get_df_for_design ''bira2_1c'' [''J'' \<mapsto> 2, ''n'' \<mapsto> 30]"
    by blast
  with h v show ?thesis by simp
qed

text \<open>
  Claim C9. A design id that is not a key of the twenty-entry table gets the
  default 10, whatever the parameters: no formula is applied and nothing is
  raised. The public ITS ids \<open>''its_nocompare''\<close> and \<open>''its_wcompare''\<close> are such
  ids, since the table is keyed by \<open>''its''\<close> only.
\<close>

theorem get_df_unlisted_design:
  "(d \<notin> set df_design_ids \<longrightarrow> get_df_for_design d p = 10)
 \<and> get_df_for_design ''its_nocompare'' p = 10
 \<and> get_df_for_design ''its_wcompare'' p = 10"
proof -
  have "''its_nocompare'' \<notin> set df_design_ids" "''its_wcompare'' \<notin> set df_design_ids"
    by (simp_all add: df_design_ids_def)
  then show ?thesis by (simp add: get_df_unknown)
qed

text \<open>
  The hypothesis of C9 at a concrete id: the table's keys are lower case, so the
  upper-case \<open>''IRA''\<close> is not listed.
\<close>

theorem get_df_unlisted_design_witness:
  "''IRA'' \<notin> set df_design_ids \<and> get_df_for_design ''IRA'' [''n'' \<mapsto> 400] = 10"
  using get_df_unlisted_design [of "''IRA''" "[''n'' \<mapsto> 400]"]
  by (simp add: df_design_ids_def)

section \<open>Properties of the multiplier\<close>

lemma calc_unfold:
  "calculate_multiplier ppf alpha pw df tails =
    ((if pw \<ge> 0.5 then ppf (1 - (if tails = 2 then alpha / 2 else alpha)) df + \<bar>ppf (1 - pw) df\<bar>
      else ppf (1 - (if tails = 2 then alpha / 2 else alpha)) df - \<bar>ppf (1 - pw) df\<bar>),
     ppf (1 - (if tails = 2 then alpha / 2 else alpha)) df,
     \<bar>ppf (1 - pw) df\<bar>)"
  by (simp add: calculate_multiplier_def Let_def)

text \<open>
  Claim C1. For every alpha, power and df (and every quantile function),
  \<open>calculate_multiplier\<close> returns a triple \<open>(M, T1, T2)\<close> in which T1 is the
  quantile at \<open>1 - alpha / 2\<close> exactly when the tail count is 2 and the quantile
  at \<open>1 - alpha\<close> otherwise, T2 is the absolute value of the quantile at
  \<open>1 - power\<close>, both with df degrees of freedom, and M is \<open>T1 + T2\<close> when
  the power is at least 0.5 and \<open>T1 - T2\<close> when it is below.
\<close>

theorem calculate_multiplier_triple:
  "\<exists>M T1 T2. calculate_multiplier ppf alpha pw df tails = (M, T1, T2)
     \<and> (tails = 2 \<longrightarrow> T1 = ppf (1 - alpha / 2) df)
     \<and> (tails \<noteq> 2 \<longrightarrow> T1 = ppf (1 - alpha) df)
     \<and> T2 = \<bar>ppf (1 - pw) df\<bar>
     \<and> (pw \<ge> 0.5 \<longrightarrow> M = T1 + T2)
     \<and> (pw < 0.5 \<longrightarrow> M = T1 - T2)"
  by (simp add: calc_unfold)

text \<open>
  C1 at two inputs, with a quantile function that is symmetric about 1/2: two
  tails and power 0.8, then one tail and power 0.3.
\<close>

theorem calculate_multiplier_triple_witness:
  "calculate_multiplier (\<lambda>q d. 2 * q - 1) 0.05 0.8 398 2 = (1.55, 0.95, 0.6)
 \<and> calculate_multiplier (\<lambda>q d. 2 * q - 1) 0.05 0.3 398 1 = (0.5, 0.9, 0.4)"
  using calculate_multiplier_triple [of "\<lambda>q d. 2 * q - 1" "0.05" "0.8" 398 2]
        calculate_multiplier_triple [of "\<lambda>q d. 2 * q - 1" "0.05" "0.3" 398 1]
  by auto

section \<open>Properties of the design-effect helper\<close>

lemma float_max_bounds: "2 ^ 1023 < float_max" "float_max < 2 ^ 1024"
  by (simp_all add: float_max_def)

lemma py_pow2_small: "x\<^sup>2 \<le> 1 \<Longrightarrow> py_pow2 x = Inr (x\<^sup>2)"
proof -
  assume "x\<^sup>2 \<le> 1"
  moreover have "(1::real) \<le> 2 ^ 1023" by simp
  ultimately have "x\<^sup>2 \<le> float_max" using float_max_bounds(1) by linarith
  then show ?thesis by (simp add: py_pow2_def)
qed

lemma sq_less_one: "-1 < (x::real) \<Longrightarrow> x < 1 \<Longrightarrow> x\<^sup>2 < 1"
  by (simp add: abs_square_less_1 abs_less_iff)

lemma sq_greater_one: "(x::real) < -1 \<Longrightarrow> 1 < x\<^sup>2"
proof -
  assume "x < -1"
  then have "1 < (- x) * (- x)" by (intro less_1_mult) simp_all
  then show ?thesis by (simp add: power2_eq_square)
qed

lemma ede_inside:
  assumes "-1 < rho_ts" "rho_ts < 1"
  shows "estimate_design_effect rho_ts = Inr (Fin (1 / (1 - rho_ts\<^sup>2)))"
proof -
  have sq: "rho_ts\<^sup>2 < 1" using assms by (rule sq_less_one)
  then have "py_pow2 rho_ts = Inr (rho_ts\<^sup>2)" by (simp add: py_pow2_small)
  with sq assms show ?thesis
    by (simp add: estimate_design_effect_def py_truediv_def)
qed

lemma ede_minus_one: "estimate_design_effect (-1) = Inl ZeroDivisionError"
proof -
  have "py_pow2 (-1) = Inr 1" using py_pow2_small [of "-1"] by simp
  then show ?thesis by (simp add: estimate_design_effect_def py_truediv_def)
qed

lemma ede_below:
  assumes "rho_ts < -1" "rho_ts\<^sup>2 \<le> float_max"
  shows "estimate_design_effect rho_ts = Inr (Fin (1 / (1 - rho_ts\<^sup>2)))" "1 / (1 - rho_ts\<^sup>2) < 0"
proof -
  have sq: "1 < rho_ts\<^sup>2" using assms(1) by (rule sq_greater_one)
  with assms show "estimate_design_effect rho_ts = Inr (Fin (1 / (1 - rho_ts\<^sup>2)))"
    by (simp add: estimate_design_effect_def py_truediv_def py_pow2_def)
  from sq show "1 / (1 - rho_ts\<^sup>2) < 0" by (simp add: divide_less_0_iff)
qed

lemma ede_overflow:
  assumes "rho_ts < 1" "float_max < rho_ts\<^sup>2"
  shows "estimate_design_effect rho_ts = Inl OverflowError"
  using assms by (simp add: estimate_design_effect_def py_pow2_def)

lemma huge_sq: "float_max < (- (2 ^ 520))\<^sup>2"
proof -
  have "(- (2 ^ 520) :: real)\<^sup>2 = 2 ^ 1024 * 2 ^ 16" by simp
  moreover have "(2 ^ 1024 :: real) \<le> 2 ^ 1024 * 2 ^ 16" by simp
  ultimately show ?thesis using float_max_bounds(2) by linarith
qed

text \<open>
  What the helper returns where it returns: +infinity from 1 upward, the
  quotient strictly between -1 and 1, and at 0.80 the value \<open>1 / (1 - 0.64)\<close>,
  which is 2.7778 to four decimal places.
\<close>

lemma estimate_design_effect_values:
  "(rho_ts \<ge> 1 \<longrightarrow> estimate_design_effect rho_ts = Inr PosInf)
 \<and> (-1 < rho_ts \<and> rho_ts < 1 \<longrightarrow> estimate_design_effect rho_ts = Inr (Fin (1 / (1 - rho_ts\<^sup>2))))
 \<and> estimate_design_effect 0.80 = Inr (Fin (1 / (1 - 0.64)))
 \<and> round ((1 / (1 - 0.64) :: real) * 10 ^ 4) = 27778"
proof -
  have a: "rho_ts \<ge> 1 \<longrightarrow> estimate_design_effect rho_ts = Inr PosInf"
    by (simp add: estimate_design_effect_def)
  have b: "-1 < rho_ts \<and> rho_ts < 1 \<longrightarrow>
      estimate_design_effect rho_ts = Inr (Fin (1 / (1 - rho_ts\<^sup>2)))"
    using ede_inside by blast
  have c: "estimate_design_effect 0.80 = Inr (Fin (1 / (1 - 0.64)))"
    using ede_inside [of "0.80"] by (simp add: power2_eq_square)
  have d: "round ((1 / (1 - 0.64) :: real) * 10 ^ 4) = 27778"
    by (simp add: round_def floor_unique)
  from a b c d show ?thesis by (intro conjI)
qed


text \<open>
  Claim C10 as stated fails below -1 for a float whose square leaves the float
  range: at \<open>- (2 ^ 520)\<close> the call raises OverflowError and returns no negative
  value.
\<close>

theorem estimate_design_effect_overflow:
  "- (2 ^ 520) < (-1 :: real)
 \<and> estimate_design_effect (- (2 ^ 520)) = Inl OverflowError"
proof -
  have "estimate_design_effect (- (2 ^ 520)) = Inl OverflowError"
    using huge_sq by (intro ede_overflow) simp_all
  then show ?thesis by simp
qed

text \<open>
  Claim C10, amended. The guard covers \<open>rho_ts \<ge> 1\<close> only: at -1 the call
  raises ZeroDivisionError instead of returning +infinity; below -1 it returns
  a negative value as long as the square of \<open>rho_ts\<close> stays within the float
  range, and raises OverflowError beyond; and it returns a positive value
  exactly on the inputs above -1.
\<close>

theorem estimate_design_effect_domain:
  "estimate_design_effect (-1) = Inl ZeroDivisionError
 \<and> (rho_ts < -1 \<and> rho_ts\<^sup>2 \<le> float_max \<longrightarrow>
      (\<exists>v. estimate_design_effect rho_ts = Inr v \<and> py_negative v))
 \<and> (rho_ts < -1 \<and> float_max < rho_ts\<^sup>2 \<longrightarrow> estimate_design_effect rho_ts = Inl OverflowError)
 \<and> ((\<exists>v. estimate_design_effect rho_ts = Inr v \<and> py_positive v) \<longleftrightarrow> rho_ts > -1)"
proof -
  have b: "\<exists>v. estimate_design_effect rho_ts = Inr v \<and> py_negative v"
    if "rho_ts < -1" "rho_ts\<^sup>2 \<le> float_max"
    using ede_below [OF that] by simp
  have o: "estimate_design_effect rho_ts = Inl OverflowError"
    if "rho_ts < -1" "float_max < rho_ts\<^sup>2"
    using that by (intro ede_overflow) simp_all
  have c1: "\<exists>v. estimate_design_effect rho_ts = Inr v \<and> py_positive v" if "rho_ts > -1"
  proof (cases "rho_ts \<ge> 1")
    case True
    then show ?thesis by (simp add: estimate_design_effect_def)
  next
    case False
    with that have in1: "-1 < rho_ts" "rho_ts < 1" by simp_all
    then have "rho_ts\<^sup>2 < 1" by (rule sq_less_one)
    with ede_inside [OF in1] show ?thesis by simp
  qed
  have c2: "rho_ts > -1" if "estimate_design_effect rho_ts = Inr v" "py_positive v" for v
  proof (rule ccontr)
    assume "\<not> rho_ts > -1"
    then consider "rho_ts = -1" | "rho_ts < -1" "rho_ts\<^sup>2 \<le> float_max"
      | "rho_ts < -1" "float_max < rho_ts\<^sup>2" by fastforce
    then show False
    proof cases
      case 1
      with ede_minus_one that show False by simp
    next
      case 2
      with b obtain w where "estimate_design_effect rho_ts = Inr w" "py_negative w" by blast
      with that show False by (cases v) auto
    next
      case 3
      with o that show False by simp
    qed
  qed
  from ede_minus_one b o c1 c2 show ?thesis by blast
qed

text \<open>
  The amended C10 at -2 (negative result), at \<open>- (2 ^ 600)\<close> (overflow) and at
  1/2 (positive result).
\<close>

theorem estimate_design_effect_domain_witness:
  "estimate_design_effect (-2) = Inr (Fin (- (1/3))) \<and> py_negative (Fin (- (1/3)))
 \<and> estimate_design_effect (- (2 ^ 600)) = Inl OverflowError
 \<and> estimate_design_effect (1/2) = Inr (Fin (4/3)) \<and> py_positive (Fin (4/3))"
proof -
  have small: "((-2)\<^sup>2 :: real) \<le> float_max"
    using float_max_bounds(1) by simp
  have "(- (2 ^ 600) :: real)\<^sup>2 = 2 ^ 1024 * 2 ^ 176" by simp
  moreover have "(2 ^ 1024 :: real) \<le> 2 ^ 1024 * 2 ^ 176" by simp
  ultimately have big: "float_max < (- (2 ^ 600) :: real)\<^sup>2"
    using float_max_bounds(2) by linarith
  have neg: "(- (2 ^ 600) :: real) < -1" by simp
  from estimate_design_effect_domain [of "-2"] small
  have a: "\<exists>v. estimate_design_effect (-2) = Inr v \<and> py_negative v" by simp
  have a': "estimate_design_effect (-2) = Inr (Fin (- (1/3)))"
    using ede_below(1) [of "-2"] small by simp
  from estimate_design_effect_domain [of "- (2 ^ 600)"] big neg
  have b: "estimate_design_effect (- (2 ^ 600)) = Inl OverflowError" by blast
  from estimate_design_effect_domain [of "1/2"]
  have c: "\<exists>v. estimate_design_effect (1/2) = Inr v \<and> py_positive v" by simp
  have c': "estimate_design_effect (1/2) = Inr (Fin (4/3))"
    using ede_inside [of "1/2"] by (simp add: power2_eq_square)
  from a a' b c c' show ?thesis by simp
qed

section \<open>Properties of the formula engine\<close>

subsection \<open>The search for the minimum sample size and the bisection for the power\<close>

lemma find_min_size_ge:
  "find_min_size f es s cap = Inr r \<Longrightarrow> s \<le> r"
proof (induction cap arbitrary: s)
  case 0
  then show ?case by simp
next
  case (Suc cap)
  then show ?case
    by (fastforce split: sum.splits if_splits)
qed



lemma find_min_size_mono:
  assumes dom: "\<And>n d2. f2 n = Inr d2 \<Longrightarrow> \<exists>d1. f1 n = Inr d1 \<and> d1 \<le> d2"
  shows "find_min_size f2 es s cap = Inr n2 \<Longrightarrow> \<exists>n1. find_min_size f1 es s cap = Inr n1 \<and> n1 \<le> n2"
proof (induction cap arbitrary: s)
  case 0
  then show ?case by simp
next
  case (Suc cap)
  from Suc.prems obtain d2 where d2: "f2 s = Inr d2"
    by (cases "f2 s") simp_all
  from dom [OF d2] obtain d1 where d1: "f1 s = Inr d1" "d1 \<le> d2" by blast
  have ge: "s \<le> n2" using Suc.prems by (rule find_min_size_ge)
  show ?case
  proof (cases "d1 \<le> es")
    case True
    with d1 ge show ?thesis by simp
  next
    case False
    with d1 have "\<not> d2 \<le> es" by simp
    with d2 Suc.prems have "find_min_size f2 es (Suc s) cap = Inr n2" by simp
    from Suc.IH [OF this] False d1 show ?thesis by simp
  qed
qed

lemma multiplier_tails_less:
  assumes mono: "\<And>q1 q2. 0 < q1 \<Longrightarrow> q1 < q2 \<Longrightarrow> q2 < 1 \<Longrightarrow> ppf q1 df < ppf q2 df"
    and a: "0 < alpha" "alpha < 1"
  shows "fst (calculate_multiplier ppf alpha pw df 1) < fst (calculate_multiplier ppf alpha pw df 2)"
    and "fst (snd (calculate_multiplier ppf alpha pw df 1)) < fst (snd (calculate_multiplier ppf alpha pw df 2))"
proof -
  have "ppf (1 - alpha) df < ppf (1 - alpha / 2) df"
    using a by (intro mono) simp_all
  then show "fst (calculate_multiplier ppf alpha pw df 1) < fst (calculate_multiplier ppf alpha pw df 2)"
    and "fst (snd (calculate_multiplier ppf alpha pw df 1)) < fst (snd (calculate_multiplier ppf alpha pw df 2))"
    by (simp_all add: calculate_multiplier_def Let_def)
qed

lemma effect_size_tails_le:
  assumes mono: "\<And>d q1 q2. 0 < q1 \<Longrightarrow> q1 < q2 \<Longrightarrow> q2 < 1 \<Longrightarrow> ppf q1 d < ppf q2 d"
    and a: "0 < alpha" "alpha < 1"
    and two: "effect_size ppf df_of var_of alpha pw 2 s = Inr d2"
  shows "\<exists>d1. effect_size ppf df_of var_of alpha pw 1 s = Inr d1 \<and> d1 \<le> d2"
proof -
  from two obtain v where v: "var_of s = Inr v" "\<not> v < 0"
    by (auto simp: effect_size_def split: sum.splits if_splits)
  have "fst (calculate_multiplier ppf alpha pw (df_of s) 1)
      < fst (calculate_multiplier ppf alpha pw (df_of s) 2)"
    using mono a by (rule multiplier_tails_less(1))
  then have "fst (calculate_multiplier ppf alpha pw (df_of s) 1) * sqrt v
      \<le> fst (calculate_multiplier ppf alpha pw (df_of s) 2) * sqrt v"
    using v by (intro mult_right_mono) simp_all
  with two v show ?thesis
    by (auto simp: effect_size_def)
qed

lemma solve_power_bracket:
  "solve_power f es tol lo hi cap = Inr p \<Longrightarrow> lo < hi \<Longrightarrow> lo < p \<and> p < hi"
proof (induction cap arbitrary: lo hi)
  case 0
  then show ?case by simp
next
  case (Suc cap)
  let ?mid = "(lo + hi) / 2"
  have m: "lo < ?mid" "?mid < hi" using Suc.prems(2) by simp_all
  from Suc.prems(1) obtain d where d: "f ?mid = Inr d"
    by (cases "f ?mid") (simp_all add: Let_def)
  consider "\<bar>d - es\<bar> \<le> tol" | "\<not> \<bar>d - es\<bar> \<le> tol" "d < es" | "\<not> \<bar>d - es\<bar> \<le> tol" "\<not> d < es"
    by blast
  then show ?case
  proof cases
    case 1
    with d Suc.prems(1) have "p = ?mid" by (simp add: Let_def)
    with m show ?thesis by simp
  next
    case 2
    with d Suc.prems(1) have "solve_power f es tol ?mid hi cap = Inr p" by (simp add: Let_def)
    from Suc.IH [OF this m(2)] m show ?thesis by simp
  next
    case 3
    with d Suc.prems(1) have "solve_power f es tol lo ?mid cap = Inr p" by (simp add: Let_def)
    from Suc.IH [OF this m(1)] m show ?thesis by simp
  qed
qed

subsection \<open>A concrete design: individual random assignment\<close>

text \<open>
  Half of the sample treated, no covariate: the term under the root is \<open>4 / n\<close>.
  With \<open>alpha = 1/20\<close> and power \<open>4/5\<close> the stand-in quantile function gives
  the multiplier \<open>31/20\<close> for two tails and \<open>3/2\<close> for one.
\<close>

lemma mult_sqrt_le_iff:
  assumes "0 \<le> m" "0 \<le> e"
  shows "(m * sqrt v \<le> e) = (m\<^sup>2 * v \<le> e\<^sup>2)"
proof -
  have "m * sqrt v = sqrt (m\<^sup>2 * v)"
    using assms by (simp add: real_sqrt_mult)
  moreover have "e = sqrt (e\<^sup>2)"
    using assms by simp
  ultimately have "(m * sqrt v \<le> e) = (sqrt (m\<^sup>2 * v) \<le> sqrt (e\<^sup>2))"
    by simp
  then show ?thesis
    by (simp only: real_sqrt_le_iff)
qed

lemma find_min_size_numeral:
  "find_min_size f es s (numeral k) =
    (case f s of
       Inl e \<Rightarrow> Inl e
     | Inr d \<Rightarrow> if d \<le> es then Inr s else find_min_size f es (Suc s) (pred_numeral k))"
  by (simp add: numeral_eq_Suc)

lemma ira_effect_size_two:
  "0 < n \<Longrightarrow>
    effect_size linear_ppf (ira_df 0) (ira_var (1/2) 0) (1/20) (4/5) 2 n = Inr (31/20 * sqrt (4 / real n))"
  by (simp add: effect_size_def ira_var_def calculate_multiplier_def linear_ppf_def)

lemma ira_effect_size_one:
  "0 < n \<Longrightarrow>
    effect_size linear_ppf (ira_df 0) (ira_var (1/2) 0) (1/20) (4/5) 1 n = Inr (3/2 * sqrt (4 / real n))"
  by (simp add: effect_size_def ira_var_def calculate_multiplier_def linear_ppf_def)

lemma ira_sample_size_two:
  "sample_size linear_ppf (ira_df 0) (ira_var (1/2) 0) (1/20) (4/5) 2 1 3 20 = Inr 10"
  by (simp add: sample_size_def ira_effect_size_two mult_sqrt_le_iff find_min_size_numeral power2_eq_square)

lemma ira_sample_size_one:
  "sample_size linear_ppf (ira_df 0) (ira_var (1/2) 0) (1/20) (4/5) 1 1 3 20 = Inr 9"
  by (simp add: sample_size_def ira_effect_size_one mult_sqrt_le_iff find_min_size_numeral power2_eq_square)



lemma linear_ppf_mono:
  "\<forall>d q1 q2. 0 < q1 \<and> q1 < q2 \<and> q2 < 1 \<longrightarrow> linear_ppf q1 d < linear_ppf q2 d"
  by (simp add: linear_ppf_def)

lemma solve_power_numeral:
  "solve_power f es tol lo hi (numeral k) =
    (let mid = (lo + hi) / 2 in
     case f mid of
       Inl e \<Rightarrow> Inl e
     | Inr d \<Rightarrow>
         if \<bar>d - es\<bar> \<le> tol then Inr mid
         else if d < es then solve_power f es tol mid hi (pred_numeral k)
         else solve_power f es tol lo mid (pred_numeral k))"
  by (simp add: numeral_eq_Suc)

lemma ira_power:
  "power_py linear_ppf (ira_df 0) (ira_var (1/2) 0) (1/20) 2 4 (59/40) (1/1000) 50 = Inr (61/80)"
  by (simp add: power_py_def solve_power_numeral effect_size_def ira_var_def
      calculate_multiplier_def linear_ppf_def Let_def)

subsection \<open>The claims on power, round trip and tail count\<close>

text \<open>
  Claim C6. For every design (its degrees of freedom and its term under the
  root), every quantile function and every parameter set with \<open>0 \<le> alpha < 1\<close>,
  a value returned by \<open>power_py\<close> lies strictly between 0 and 1.
\<close>

theorem power_py_open_unit_interval:
  assumes "0 \<le> alpha" and "alpha < 1"
    and "power_py ppf df_of var_of alpha tails s es tol cap = Inr p"
  shows "0 < p \<and> p < 1"
proof -
  from assms(3) have "solve_power (\<lambda>\<pi>. effect_size ppf df_of var_of alpha \<pi> tails s) es tol alpha 1 cap = Inr p"
    by (simp add: power_py_def)
  from solve_power_bracket [OF this assms(2)] assms(1) show ?thesis by simp
qed

text \<open>
  C6 on the concrete design with \<open>n = 4\<close> and target effect size \<open>59/40\<close>:
  the bisection returns \<open>61/80\<close> at its second midpoint.
\<close>

theorem power_py_open_unit_interval_witness:
  "power_py linear_ppf (ira_df 0) (ira_var (1/2) 0) (1/20) 2 4 (59/40) (1/1000) 50 = Inr (61/80)
 \<and> (0::real) < 61/80 \<and> (61/80::real) < 1"
  using power_py_open_unit_interval [of "1/20" linear_ppf "ira_df 0" "ira_var (1/2) 0" 2 4
      "59/40" "1/1000" 50 "61/80"] ira_power
  by simp




text \<open>
  Claim C8. For a quantile function that is strictly increasing on \<open>(0, 1)\<close> and
  every \<open>alpha\<close> strictly between 0 and 1, the multiplier triple for two tails
  differs from the triple for one tail at every power and df, so the multiplier
  is not invariant to the tail count; and whenever the two-tailed minimum sample
  size exists, so does the one-tailed one at the same power, alpha and target,
  and it is less than or equal to the two-tailed one.
\<close>

theorem tails_multiplier_sample_size:
  assumes mono: "\<forall>d q1 q2. 0 < q1 \<and> q1 < q2 \<and> q2 < 1 \<longrightarrow> ppf q1 d < ppf q2 d"
    and a: "0 < alpha" "alpha < 1"
    and two: "sample_size ppf df_of var_of alpha pw 2 es lo cap = Inr n2"
  shows "calculate_multiplier ppf alpha pw df 2 \<noteq> calculate_multiplier ppf alpha pw df 1
       \<and> (\<exists>n1. sample_size ppf df_of var_of alpha pw 1 es lo cap = Inr n1 \<and> n1 \<le> n2)"
proof -
  have m: "\<And>d q1 q2. 0 < q1 \<Longrightarrow> q1 < q2 \<Longrightarrow> q2 < 1 \<Longrightarrow> ppf q1 d < ppf q2 d"
    using mono by blast
  have "fst (snd (calculate_multiplier ppf alpha pw df 1))
      < fst (snd (calculate_multiplier ppf alpha pw df 2))"
    using m a by (rule multiplier_tails_less(2))
  then have diff: "calculate_multiplier ppf alpha pw df 2 \<noteq> calculate_multiplier ppf alpha pw df 1"
    by auto
  have "\<exists>d1. effect_size ppf df_of var_of alpha pw 1 n = Inr d1 \<and> d1 \<le> d2"
    if "effect_size ppf df_of var_of alpha pw 2 n = Inr d2" for n d2
    using m a that by (rule effect_size_tails_le)
  from find_min_size_mono [of "effect_size ppf df_of var_of alpha pw 2"
      "effect_size ppf df_of var_of alpha pw 1", OF this] two
  have "\<exists>n1. sample_size ppf df_of var_of alpha pw 1 es lo cap = Inr n1 \<and> n1 \<le> n2"
    by (simp add: sample_size_def)
  with diff show ?thesis by simp
qed

text \<open>
  C8 on the concrete design with target 1: two tails need 10 units, one tail
  needs 9, and the two multiplier triples at 398 degrees of freedom differ.
\<close>

theorem tails_multiplier_sample_size_witness:
  "sample_size linear_ppf (ira_df 0) (ira_var (1/2) 0) (1/20) (4/5) 2 1 3 20 = Inr 10
 \<and> sample_size linear_ppf (ira_df 0) (ira_var (1/2) 0) (1/20) (4/5) 1 1 3 20 = Inr 9
 \<and> calculate_multiplier linear_ppf (1/20) (4/5) 398 2 \<noteq> calculate_multiplier linear_ppf (1/20) (4/5) 398 1"
  using tails_multiplier_sample_size [OF linear_ppf_mono _ _ ira_sample_size_two, of 398]
    ira_sample_size_two ira_sample_size_one
  by simp

end
